theory Spec2Isabelle
  imports Main "HOL-Library.Word"
begin

section \<open>The CSI proxy mounter of the SMB driver\<close>

text \<open>The source is \<^verbatim>\<open>pkg/mounter/safe_mounter_windows.go\<close>.\<close>

text \<open>
  A Go \<open>string\<close> is a sequence of bytes, modelled as \<open>string\<close> (a list of 8-bit
  \<open>char\<close>s). The only characters the mounter looks at (space, slash, backslash) are
  ASCII, and an ASCII byte never occurs inside a multi-byte UTF-8 sequence, so working
  byte by byte agrees with Go's rune-by-rune iteration wherever the mounter uses it.
  Logging through klog has no effect on results or on the helper service and is left out.
\<close>

subsection \<open>The functions of Go's \<open>strings\<close> and \<open>fmt\<close> packages the mounter calls\<close>

definition backslash :: char where
  "backslash = CHR 0x5C"

text \<open>\<open>strings.HasPrefix\<close>: \<open>len(s) >= len(prefix) && s[:len(prefix)] == prefix\<close>.\<close>

definition HasPrefix :: "string \<Rightarrow> string \<Rightarrow> bool" where
  "HasPrefix s prefix \<longleftrightarrow> length s \<ge> length prefix \<and> take (length prefix) s = prefix"

text \<open>\<open>strings.HasSuffix\<close>: \<open>len(s) >= len(suffix) && s[len(s)-len(suffix):] == suffix\<close>.\<close>

definition HasSuffix :: "string \<Rightarrow> string \<Rightarrow> bool" where
  "HasSuffix s suffix \<longleftrightarrow>
     length s \<ge> length suffix \<and> drop (length s - length suffix) s = suffix"

text \<open>\<open>strings.Index\<close>: the position of the first instance of \<open>substr\<close> in \<open>s\<close>;
  \<open>None\<close> stands for Go's \<open>-1\<close>.\<close>

fun Index :: "string \<Rightarrow> string \<Rightarrow> nat option" where
  "Index [] substr = (if substr = [] then Some 0 else None)"
| "Index (c # cs) substr =
     (if HasPrefix (c # cs) substr then Some 0 else map_option Suc (Index cs substr))"

text \<open>\<open>strings.Count\<close>: the number of non-overlapping instances of \<open>substr\<close>. For an
  empty \<open>substr\<close> Go answers the number of runes plus one; the model counts bytes there,
  which is exact on ASCII text. The mounter never passes an empty \<open>substr\<close>.\<close>

function Count :: "string \<Rightarrow> string \<Rightarrow> nat" where
  "Count s substr =
     (if substr = [] then length s + 1
      else case Index s substr of
             None \<Rightarrow> 0
           | Some i \<Rightarrow> 1 + Count (drop (i + length substr) s) substr)"
  by pat_completeness auto
termination
proof (relation "measure (\<lambda>(s, substr). length s)")
  show "wf (measure (\<lambda>(s, substr). length s))" by simp
next
  fix s substr :: string and i :: nat
  assume nonempty: "substr \<noteq> []" and found: "Index s substr = Some i"
  have "Index t substr = Some k \<Longrightarrow> k + length substr \<le> length t" for t k
  proof (induction t arbitrary: k)
    case Nil
    then show ?case by (simp split: if_splits)
  next
    case (Cons c cs)
    show ?case
    proof (cases "HasPrefix (c # cs) substr")
      case True
      with Cons.prems show ?thesis by (simp add: HasPrefix_def)
    next
      case False
      with Cons.prems obtain j where "Index cs substr = Some j" "k = Suc j" by auto
      with Cons.IH [of j] show ?thesis by simp
    qed
  qed
  from this [OF found] nonempty
  show "((drop (i + length substr) s, substr), (s, substr))
          \<in> measure (\<lambda>(s, substr). length s)"
    by (cases substr) auto
qed

text \<open>The loop of \<open>strings.Replace\<close>: \<open>i\<close> counts the replacements made, \<open>s\<close> is the
  text from \<open>start\<close> on. Go only gets here with \<open>n\<close> at most \<open>Count\<close>, so \<open>Index\<close> finds
  an instance each time; for an empty \<open>old\<close> the match is before the first rune and then
  after each following one (one byte each on ASCII text).\<close>

function replace_loop :: "nat \<Rightarrow> nat \<Rightarrow> string \<Rightarrow> string \<Rightarrow> string \<Rightarrow> string" where
  "replace_loop i n s old new =
     (if i < n then
        (let j = (if old = [] then (if i > 0 then min 1 (length s) else 0)
                  else (case Index s old of Some k \<Rightarrow> k | None \<Rightarrow> 0))
         in take j s @ new @ replace_loop (i + 1) n (drop (j + length old) s) old new)
      else s)"
  by pat_completeness auto
termination
  by (relation "measure (\<lambda>(i, n, s, old, new). n - i)") auto

text \<open>\<open>strings.Replace(s, old, new, n)\<close>: the first \<open>n\<close> non-overlapping instances of
  \<open>old\<close> replaced by \<open>new\<close>; every instance when \<open>n < 0\<close>.\<close>

definition Replace :: "string \<Rightarrow> string \<Rightarrow> string \<Rightarrow> int \<Rightarrow> string" where
  "Replace s old new n =
     (if old = new \<or> n = 0 then s
      else (let m = Count s old in
            if m = 0 then s
            else replace_loop 0 (if n < 0 \<or> int m < n then m else nat n) s old new))"

text \<open>\<open>strings.FieldsFunc(s, f)\<close>: the maximal runs of characters that do not satisfy
  \<open>f\<close>, in order. The loop keeps the field it is inside (\<open>start >= 0\<close> in Go) as
  \<open>Some\<close> of the characters read so far.\<close>

fun fields_loop :: "(char \<Rightarrow> bool) \<Rightarrow> string option \<Rightarrow> string \<Rightarrow> string list" where
  "fields_loop f None [] = []"
| "fields_loop f (Some w) [] = [w]"
| "fields_loop f cur (c # cs) =
     (if f c then
        (case cur of
           Some w \<Rightarrow> w # fields_loop f None cs
         | None \<Rightarrow> fields_loop f None cs)
      else
        (case cur of
           None \<Rightarrow> fields_loop f (Some [c]) cs
         | Some w \<Rightarrow> fields_loop f (Some (w @ [c])) cs))"

definition FieldsFunc :: "string \<Rightarrow> (char \<Rightarrow> bool) \<Rightarrow> string list" where
  "FieldsFunc s f = fields_loop f None s"

text \<open>The verb \<open>%d\<close> of \<open>fmt\<close> on a length: its decimal digits.\<close>

function fmt_d :: "nat \<Rightarrow> string" where
  "fmt_d n = (if n < 10 then [''0123456789'' ! n]
              else fmt_d (n div 10) @ [''0123456789'' ! (n mod 10)])"
  by pat_completeness auto
termination
  by (relation "measure (\<lambda>n. n)") auto

subsection \<open>Errors\<close>

text \<open>
  A Go \<open>error\<close> return is \<open>error option\<close>, \<open>None\<close> for \<open>nil\<close>. \<open>Errorf\<close> is an error
  made by \<open>fmt.Errorf\<close> in this file and carries the formatted message; \<open>ErrNotExist\<close> is
  \<open>os.ErrNotExist\<close>; \<open>ClientError\<close> is an error handed back by a collaborator (the
  clients of the helper service, the resolver), with its message.
\<close>

datatype error = ErrNotExist | Errorf string | ClientError string

text \<open>The method \<open>Error()\<close>, which the verb \<open>%v\<close> prints.\<close>

fun Error :: "error \<Rightarrow> string" where
  "Error ErrNotExist = ''file does not exist''"
| "Error (Errorf msg) = msg"
| "Error (ClientError msg) = msg"

subsection \<open>The helper service\<close>

datatype PathContext = PLUGIN | POD

text \<open>The requests the mounter sends, with the fields it sets, in the order of the
  struct literals of the source: \<open>PathExistsRequest{Path}\<close>, \<open>MkdirRequest{Path, Context}\<close>,
  \<open>RmdirRequest{Path, Context, Force}\<close>, \<open>IsMountPointRequest{Path}\<close>,
  \<open>LinkPathRequest{SourcePath, TargetPath}\<close> and
  \<open>NewSmbGlobalMappingRequest{LocalPath, RemotePath, Username, Password}\<close>.\<close>

datatype request =
    PathExistsRequest string
  | MkdirRequest string PathContext
  | RmdirRequest string PathContext bool
  | IsMountPointRequest string
  | LinkPathRequest string string
  | NewSmbGlobalMappingRequest string string string string

text \<open>
  Everything the methods take from outside the file. The two clients of the helper
  service are functions on the state \<open>'w\<close> of the node the service runs on, one per remote
  call: each takes the fields of its request and answers with an error or the field of
  the response the mounter reads. \<open>filepath_Dir\<close> is \<open>filepath.Dir\<close> of the platform;
  \<open>net_ResolveIPAddr\<close> is \<open>net.ResolveIPAddr\<close> followed by \<open>ip.String()\<close>.
\<close>

record 'w CSIProxyMounter =
  FsClient_PathExists :: "string \<Rightarrow> 'w \<Rightarrow> (error + bool) \<times> 'w"
  FsClient_Mkdir :: "string \<Rightarrow> PathContext \<Rightarrow> 'w \<Rightarrow> error option \<times> 'w"
  FsClient_Rmdir :: "string \<Rightarrow> PathContext \<Rightarrow> bool \<Rightarrow> 'w \<Rightarrow> error option \<times> 'w"
  FsClient_IsMountPoint :: "string \<Rightarrow> 'w \<Rightarrow> (error + bool) \<times> 'w"
  FsClient_LinkPath :: "string \<Rightarrow> string \<Rightarrow> 'w \<Rightarrow> error option \<times> 'w"
  SMBClient_NewSmbGlobalMapping ::
    "string \<Rightarrow> string \<Rightarrow> string \<Rightarrow> string \<Rightarrow> 'w \<Rightarrow> error option \<times> 'w"
  filepath_Dir :: "string \<Rightarrow> string"
  net_ResolveIPAddr :: "string \<Rightarrow> string \<Rightarrow> error + string"

text \<open>The state an operation runs in: the requests issued to the helper service so far,
  oldest first, and the state of the node behind it.\<close>

record 'w state =
  issued :: "request list"
  node :: 'w

text \<open>One remote call: the request is recorded and the service answers.\<close>

definition rpc :: "request \<Rightarrow> ('w \<Rightarrow> 'r \<times> 'w) \<Rightarrow> 'w state \<Rightarrow> 'r \<times> 'w state" where
  "rpc req serve s =
     (case serve (node s) of (r, w) \<Rightarrow> (r, \<lparr>issued = issued s @ [req], node = w\<rparr>))"

subsection \<open>The mounter\<close>

definition normalizeWindowsPath :: "string \<Rightarrow> string" where
  "normalizeWindowsPath path =
     (let normalizedPath = Replace path ''/'' [backslash] (- 1) in
      if HasPrefix normalizedPath [backslash] then ''c:'' @ normalizedPath
      else normalizedPath)"

definition Split :: "char \<Rightarrow> bool" where
  "Split r \<longleftrightarrow> r = CHR '' '' \<or> r = CHR ''/''"

definition ExistsPath ::
  "'w CSIProxyMounter \<Rightarrow> string \<Rightarrow> 'w state \<Rightarrow> (bool \<times> error option) \<times> 'w state" where
  "ExistsPath mounter path s =
     (case rpc (PathExistsRequest (normalizeWindowsPath path))
               (FsClient_PathExists mounter (normalizeWindowsPath path)) s of
        (Inl err, s') \<Rightarrow> ((False, Some err), s')
      | (Inr exists, s') \<Rightarrow> ((exists, None), s'))"

definition MakeDir ::
  "'w CSIProxyMounter \<Rightarrow> string \<Rightarrow> 'w state \<Rightarrow> error option \<times> 'w state" where
  "MakeDir mounter path s =
     rpc (MkdirRequest (normalizeWindowsPath path) PLUGIN)
         (FsClient_Mkdir mounter (normalizeWindowsPath path) PLUGIN) s"

definition Rmdir ::
  "'w CSIProxyMounter \<Rightarrow> string \<Rightarrow> 'w state \<Rightarrow> error option \<times> 'w state" where
  "Rmdir mounter path s =
     rpc (RmdirRequest (normalizeWindowsPath path) POD True)
         (FsClient_Rmdir mounter (normalizeWindowsPath path) POD True) s"

definition SMBMount ::
  "'w CSIProxyMounter \<Rightarrow> string \<Rightarrow> string \<Rightarrow> string \<Rightarrow> string list \<Rightarrow> string list
     \<Rightarrow> 'w state \<Rightarrow> error option \<times> 'w state" where
  "SMBMount mounter source target fsType mountOptions sensitiveMountOptions s =
     (if length mountOptions = 0 \<or> length sensitiveMountOptions = 0 then
        (Some (Errorf (''empty mountOptions(len: '' @ fmt_d (length mountOptions)
                       @ '') or sensitiveMountOptions(len: ''
                       @ fmt_d (length sensitiveMountOptions) @ '') is not allowed'')), s)
      else
        (let parentDir = filepath_Dir mounter target in
         case ExistsPath mounter parentDir s of
           ((parentExists, Some err), s1) \<Rightarrow>
             (Some (Errorf (''parent dir: '' @ parentDir
                            @ '' exist check failed with err: '' @ Error err)), s1)
         | ((parentExists, None), s1) \<Rightarrow>
             (case (if \<not> parentExists then MakeDir mounter parentDir s1 else (None, s1)) of
                (Some err, s2) \<Rightarrow>
                  (Some (Errorf (''create of parent dir: '' @ parentDir
                                 @ '' dailed with error: '' @ Error err)), s2)
              | (None, s2) \<Rightarrow>
                  (let parts = FieldsFunc source Split;
                       source1 =
                         (if length parts > 0 \<and> HasSuffix (parts ! 0) ''svc.cluster.local''
                          then
                            (let domainName = parts ! 0 in
                             case net_ResolveIPAddr mounter ''ip4'' domainName of
                               Inl err \<Rightarrow> source
                             | Inr ip \<Rightarrow> Replace source domainName ip 1)
                          else source);
                       source2 = Replace source1 ''/'' [backslash] (- 1)
                   in
                   case rpc (NewSmbGlobalMappingRequest (normalizeWindowsPath target) source2
                               (mountOptions ! 0) (sensitiveMountOptions ! 0))
                            (SMBClient_NewSmbGlobalMapping mounter
                               (normalizeWindowsPath target) source2
                               (mountOptions ! 0) (sensitiveMountOptions ! 0)) s2 of
                     (Some err, s3) \<Rightarrow>
                       (Some (Errorf (''smb mapping failed with error: '' @ Error err)), s3)
                   | (None, s3) \<Rightarrow> (None, s3)))))"

definition SMBUnmount ::
  "'w CSIProxyMounter \<Rightarrow> string \<Rightarrow> 'w state \<Rightarrow> error option \<times> 'w state" where
  "SMBUnmount mounter target s = Rmdir mounter target s"

definition Mount ::
  "'w CSIProxyMounter \<Rightarrow> string \<Rightarrow> string \<Rightarrow> string \<Rightarrow> string list
     \<Rightarrow> 'w state \<Rightarrow> error option \<times> 'w state" where
  "Mount mounter source target fstype options s =
     rpc (LinkPathRequest (normalizeWindowsPath source) (normalizeWindowsPath target))
         (FsClient_LinkPath mounter (normalizeWindowsPath source) (normalizeWindowsPath target))
         s"

definition Unmount ::
  "'w CSIProxyMounter \<Rightarrow> string \<Rightarrow> 'w state \<Rightarrow> error option \<times> 'w state" where
  "Unmount mounter target s = Rmdir mounter target s"

definition IsLikelyNotMountPoint ::
  "'w CSIProxyMounter \<Rightarrow> string \<Rightarrow> 'w state \<Rightarrow> (bool \<times> error option) \<times> 'w state" where
  "IsLikelyNotMountPoint mounter path s =
     (case ExistsPath mounter path s of
        ((isExists, Some err), s1) \<Rightarrow> ((False, Some err), s1)
      | ((isExists, None), s1) \<Rightarrow>
          (if \<not> isExists then ((True, Some ErrNotExist), s1)
           else
             (case rpc (IsMountPointRequest (normalizeWindowsPath path))
                       (FsClient_IsMountPoint mounter (normalizeWindowsPath path)) s1 of
                (Inl err, s2) \<Rightarrow> ((False, Some err), s2)
              | (Inr isMountPoint, s2) \<Rightarrow> ((\<not> isMountPoint, None), s2))))"

text \<open>The capabilities the mounter does not support. None of them reaches the helper
  service, so they are plain values: the zero value of the source and the error.\<close>

record MountPoint =
  Device :: string
  Path :: string
  Type :: string
  Opts :: "string list"
  Freq :: int
  Pass :: int

definition List :: "'w CSIProxyMounter \<Rightarrow> MountPoint list \<times> error option" where
  "List mounter = ([], Some (Errorf ''List not implemented for CSIProxyMounter''))"

definition IsMountPointMatch :: "'w CSIProxyMounter \<Rightarrow> MountPoint \<Rightarrow> string \<Rightarrow> bool" where
  "IsMountPointMatch mounter mp dir \<longleftrightarrow> Path mp = dir"

definition PathIsDevice :: "'w CSIProxyMounter \<Rightarrow> string \<Rightarrow> bool \<times> error option" where
  "PathIsDevice mounter pathname =
     (False, Some (Errorf ''PathIsDevice not implemented for CSIProxyMounter''))"

definition DeviceOpened :: "'w CSIProxyMounter \<Rightarrow> string \<Rightarrow> bool \<times> error option" where
  "DeviceOpened mounter pathname =
     (False, Some (Errorf ''DeviceOpened not implemented for CSIProxyMounter''))"

definition GetDeviceNameFromMount ::
  "'w CSIProxyMounter \<Rightarrow> string \<Rightarrow> string \<Rightarrow> string \<times> error option" where
  "GetDeviceNameFromMount mounter mountPath pluginMountDir =
     ([], Some (Errorf ''GetDeviceNameFromMount not implemented for CSIProxyMounter''))"

definition MakeRShared :: "'w CSIProxyMounter \<Rightarrow> string \<Rightarrow> error option" where
  "MakeRShared mounter path =
     Some (Errorf ''MakeRShared not implemented for CSIProxyMounter'')"

definition MakeFile :: "'w CSIProxyMounter \<Rightarrow> string \<Rightarrow> error option" where
  "MakeFile mounter pathname =
     Some (Errorf ''MakeFile not implemented for CSIProxyMounter'')"

definition EvalHostSymlinks :: "'w CSIProxyMounter \<Rightarrow> string \<Rightarrow> string \<times> error option" where
  "EvalHostSymlinks mounter pathname =
     ([], Some (Errorf ''EvalHostSymlinks not implemented for CSIProxyMounter''))"

definition GetMountRefs ::
  "'w CSIProxyMounter \<Rightarrow> string \<Rightarrow> string list \<times> error option" where
  "GetMountRefs mounter pathname =
     ([], Some (Errorf ''GetMountRefs not implemented for CSIProxyMounter''))"

text \<open>\<open>int64\<close> and \<open>os.FileMode\<close> (a \<open>uint32\<close>) are machine words; \<open>- 1\<close> is the word
  that \<open>sint\<close> reads as \<open>-1\<close>.\<close>

definition GetFSGroup :: "'w CSIProxyMounter \<Rightarrow> string \<Rightarrow> 64 word \<times> error option" where
  "GetFSGroup mounter pathname =
     (- 1, Some (Errorf ''GetFSGroup not implemented for CSIProxyMounter''))"

definition GetSELinuxSupport :: "'w CSIProxyMounter \<Rightarrow> string \<Rightarrow> bool \<times> error option" where
  "GetSELinuxSupport mounter pathname =
     (False, Some (Errorf ''GetSELinuxSupport not implemented for CSIProxyMounter''))"

definition GetMode :: "'w CSIProxyMounter \<Rightarrow> string \<Rightarrow> 32 word \<times> error option" where
  "GetMode mounter pathname =
     (0, Some (Errorf ''GetMode not implemented for CSIProxyMounter''))"

definition MountSensitive ::
  "'w CSIProxyMounter \<Rightarrow> string \<Rightarrow> string \<Rightarrow> string \<Rightarrow> string list \<Rightarrow> string list
     \<Rightarrow> error option" where
  "MountSensitive mounter source target fstype options sensitiveOptions =
     Some (Errorf ''MountSensitive not implemented for CSIProxyMounter'')"

definition MountSensitiveWithoutSystemd ::
  "'w CSIProxyMounter \<Rightarrow> string \<Rightarrow> string \<Rightarrow> string \<Rightarrow> string list \<Rightarrow> string list
     \<Rightarrow> error option" where
  "MountSensitiveWithoutSystemd mounter source target fstype options sensitiveOptions =
     Some (Errorf ''MountSensitiveWithoutSystemd not implemented for CSIProxyMounter'')"

subsection \<open>Vocabulary of the properties\<close>

text \<open>Every forward slash turned into a backslash, all else kept.\<close>

definition to_backslash :: "string \<Rightarrow> string" where
  "to_backslash s = map (\<lambda>x. if x = CHR ''/'' then backslash else x) s"

text \<open>Every \<open>c\<close> of \<open>s\<close> replaced by the text \<open>new\<close>.\<close>

definition subst_char :: "char \<Rightarrow> string \<Rightarrow> string \<Rightarrow> string" where
  "subst_char c new s = concat (map (\<lambda>x. if x = c then new else [x]) s)"

text \<open>The requests an operation issued when run from state \<open>s\<close> with outcome \<open>r\<close>.\<close>

definition requests_of :: "'w state \<Rightarrow> 'a \<times> 'w state \<Rightarrow> request list" where
  "requests_of s r = drop (length (issued s)) (issued (snd r))"

subsection \<open>A helper service to run the operations on\<close>

text \<open>
  A node in memory: the directories that exist, the paths that are mount points and the
  share mappings (remote path, local path). While \<open>offline\<close> every call fails in the
  transport; while \<open>read_only\<close> directories cannot be created.
\<close>

record sim_node =
  dirs :: "string list"
  mount_points :: "string list"
  mappings :: "(string \<times> string) list"
  offline :: bool
  read_only :: bool

text \<open>The directory part of a path with no volume name, no dot elements and no repeated
  separators, written the Windows way, as \<open>filepath.Dir\<close> gives it on such paths.\<close>

definition sim_Dir :: "string \<Rightarrow> string" where
  "sim_Dir path =
     (let sep = (\<lambda>c. c = CHR ''/'' \<or> c = backslash);
          d = rev (dropWhile (\<lambda>c. \<not> sep c) (rev path));
          e = rev (dropWhile sep (rev d))
      in if d = [] then ''.'' else if e = [] then [backslash] else to_backslash e)"

definition sim_ResolveIPAddr :: "string \<Rightarrow> string \<Rightarrow> error + string" where
  "sim_ResolveIPAddr network address =
     (if network = ''ip4'' \<and> address = ''fs.svc.cluster.local'' then Inr ''10.0.0.5''
      else Inl (ClientError ''no such host''))"

definition sim_mounter :: "sim_node CSIProxyMounter" where
  "sim_mounter =
     \<lparr>FsClient_PathExists = (\<lambda>p w.
        if offline w then (Inl (ClientError ''connection lost''), w)
        else (Inr (p \<in> set (dirs w)), w)),
      FsClient_Mkdir = (\<lambda>p c w.
        if offline w then (Some (ClientError ''connection lost''), w)
        else if read_only w then (Some (ClientError ''access denied''), w)
        else (None, w\<lparr>dirs := p # dirs w\<rparr>)),
      FsClient_Rmdir = (\<lambda>p c force w.
        if offline w then (Some (ClientError ''connection lost''), w)
        else (None, w\<lparr>dirs := removeAll p (dirs w),
                         mount_points := removeAll p (mount_points w)\<rparr>)),
      FsClient_IsMountPoint = (\<lambda>p w.
        if offline w then (Inl (ClientError ''connection lost''), w)
        else (Inr (p \<in> set (mount_points w)), w)),
      FsClient_LinkPath = (\<lambda>src tgt w.
        if offline w then (Some (ClientError ''connection lost''), w)
        else (None, w\<lparr>dirs := tgt # dirs w, mount_points := tgt # mount_points w\<rparr>)),
      SMBClient_NewSmbGlobalMapping = (\<lambda>localPath remotePath username password w.
        if offline w then (Some (ClientError ''connection lost''), w)
        else (None, w\<lparr>dirs := localPath # dirs w,
                         mount_points := localPath # mount_points w,
                         mappings := (remotePath, localPath) # mappings w\<rparr>)),
      filepath_Dir = sim_Dir,
      net_ResolveIPAddr = sim_ResolveIPAddr\<rparr>"

text \<open>A node on which the directory \<open>mnt\<close> of drive \<open>c:\<close> exists and nothing is mounted.\<close>

definition sim_start :: "sim_node state" where
  "sim_start =
     \<lparr>issued = [],
      node = \<lparr>dirs = [''c:'' @ [backslash] @ ''mnt''], mount_points = [], mappings = [],
               offline = False, read_only = False\<rparr>\<rparr>"

section \<open>Facts about the string functions\<close>

lemma Index_char_None: "Index s [c] = None \<longleftrightarrow> c \<notin> set s"
  by (induction s) (auto simp: HasPrefix_def)

lemma Index_char_Some:
  "Index s [c] = Some k \<Longrightarrow> c \<notin> set (take k s) \<and> drop k s = c # drop (Suc k) s"
proof (induction s arbitrary: k)
  case Nil
  then show ?case by simp
next
  case (Cons x xs)
  show ?case
  proof (cases "x = c")
    case True
    with Cons.prems show ?thesis by (simp add: HasPrefix_def)
  next
    case False
    with Cons.prems obtain j where j: "Index xs [c] = Some j" "k = Suc j"
      by (auto simp: HasPrefix_def)
    with Cons.IH [of j] False show ?thesis by simp
  qed
qed

lemma subst_char_notin: "c \<notin> set s \<Longrightarrow> subst_char c new s = s"
  by (induction s) (auto simp: subst_char_def)

lemma subst_char_append:
  "subst_char c new (xs @ ys) = subst_char c new xs @ subst_char c new ys"
  by (simp add: subst_char_def)

lemma subst_char_split:
  assumes "Index s [c] = Some k"
  shows "subst_char c new s = take k s @ new @ subst_char c new (drop (Suc k) s)"
proof -
  from Index_char_Some [OF assms]
  have a: "c \<notin> set (take k s)" and b: "drop k s = c # drop (Suc k) s" by auto
  have "s = take k s @ c # drop (Suc k) s"
    using b by (metis append_take_drop_id)
  then have "subst_char c new s = subst_char c new (take k s @ c # drop (Suc k) s)" by simp
  also have "\<dots> = take k s @ new @ subst_char c new (drop (Suc k) s)"
    using a by (simp add: subst_char_append subst_char_notin) (simp add: subst_char_def)
  finally show ?thesis .
qed

lemma replace_loop_char:
  "n - i = Count s [c] \<Longrightarrow> replace_loop i n s [c] new = subst_char c new s"
proof (induction "n - i" arbitrary: i s)
  case 0
  then have "Count s [c] = 0" by simp
  then have "Index s [c] = None" by (simp split: option.splits)
  then have "c \<notin> set s" by (simp add: Index_char_None)
  moreover from 0 have "\<not> i < n" by simp
  ultimately show ?case by (simp add: subst_char_notin)
next
  case (Suc m)
  then have cnt: "Count s [c] = Suc m" by simp
  then obtain k where k: "Index s [c] = Some k"
    by (cases "Index s [c]") auto
  with cnt have rest: "Count (drop (Suc k) s) [c] = m" by simp
  from Suc have lt: "i < n" and m: "m = n - (i + 1)" by auto
  have "replace_loop (i + 1) n (drop (Suc k) s) [c] new = subst_char c new (drop (Suc k) s)"
    using Suc.hyps(1) [of "i + 1" "drop (Suc k) s"] m rest by simp
  then have "replace_loop i n s [c] new = take k s @ new @ subst_char c new (drop (Suc k) s)"
    using lt k by (subst replace_loop.simps) simp
  then show ?case using subst_char_split [OF k] by simp
qed

lemma Replace_char_all: "Replace s [c] new (- 1) = subst_char c new s"
proof (cases "[c] = new")
  case True
  then have "subst_char c new s = s" by (induction s) (auto simp: subst_char_def)
  with True show ?thesis by (simp add: Replace_def)
next
  case False
  show ?thesis
  proof (cases "Count s [c] = 0")
    case True
    then have "Index s [c] = None" by (simp split: option.splits)
    then have "c \<notin> set s" by (simp add: Index_char_None)
    with True False show ?thesis by (simp add: Replace_def subst_char_notin del: Count.simps)
  next
    case nz: False
    with False show ?thesis
      using replace_loop_char [of "Count s [c]" 0 s c new]
      by (simp add: Replace_def Let_def del: Count.simps replace_loop.simps)
  qed
qed

lemma Replace_slash: "Replace s ''/'' [backslash] (- 1) = to_backslash s"
  by (simp add: Replace_char_all subst_char_def to_backslash_def) (induction s; simp)

lemma to_backslash_idem: "to_backslash (to_backslash s) = to_backslash s"
  by (simp add: to_backslash_def backslash_def)

lemma normalizeWindowsPath_eq:
  "normalizeWindowsPath p =
     (if HasPrefix (to_backslash p) [backslash] then ''c:'' @ to_backslash p
      else to_backslash p)"
  by (simp add: normalizeWindowsPath_def Let_def Replace_slash)

text \<open>The first field of a text and the first instance of that field in it: the field
  starts right after the leading separators, and no instance can start earlier.\<close>

lemma fields_loop_skip:
  "\<forall>c \<in> set seps. f c \<Longrightarrow> fields_loop f None (seps @ t) = fields_loop f None t"
  by (induction seps) auto

lemma fields_loop_inside:
  "\<forall>c \<in> set h. \<not> f c \<Longrightarrow> rest = [] \<or> f (hd rest) \<Longrightarrow>
     \<exists>ps. fields_loop f (Some w) (h @ rest) = (w @ h) # ps"
proof (induction h arbitrary: w)
  case Nil
  then show ?case by (cases rest) auto
next
  case (Cons x xs)
  from Cons.prems have "\<not> f x" "\<forall>c \<in> set xs. \<not> f c" by auto
  with Cons.IH [of "w @ [x]"] Cons.prems(2) show ?case by simp
qed

lemma FieldsFunc_first:
  assumes "\<forall>c \<in> set seps. f c" and "host \<noteq> []" and "\<forall>c \<in> set host. \<not> f c"
    and "rest = [] \<or> f (hd rest)"
  shows "\<exists>ps. FieldsFunc (seps @ host @ rest) f = host # ps"
proof -
  from assms(2) obtain x xs where host: "host = x # xs" by (cases host) auto
  with assms(3) have nx: "\<not> f x" and nxs: "\<forall>c \<in> set xs. \<not> f c" by auto
  have "FieldsFunc (seps @ host @ rest) f = fields_loop f None (host @ rest)"
    using assms(1) by (simp add: FieldsFunc_def fields_loop_skip)
  also have "\<dots> = fields_loop f (Some [x]) (xs @ rest)"
    using nx host by simp
  finally show ?thesis
    using fields_loop_inside [OF nxs assms(4), of "[x]"] host by simp
qed

lemma Index_first:
  assumes "\<forall>c \<in> set seps. f c" and "host \<noteq> []" and "\<forall>c \<in> set host. \<not> f c"
  shows "Index (seps @ host @ rest) host = Some (length seps)"
  using assms(1)
proof (induction seps)
  case Nil
  from assms(2) obtain x xs where "host = x # xs" by (cases host) auto
  then show ?case by (simp add: HasPrefix_def)
next
  case (Cons s ss)
  from assms(2,3) obtain x xs where host: "host = x # xs" and "\<not> f x" by (cases host) auto
  with Cons.prems have "s \<noteq> x" by auto
  then have "\<not> HasPrefix (s # ss @ host @ rest) host"
    using host by (auto simp: HasPrefix_def)
  with Cons show ?case by simp
qed

lemma Replace_first:
  assumes "\<forall>c \<in> set seps. f c" and "host \<noteq> []" and "\<forall>c \<in> set host. \<not> f c"
  shows "Replace (seps @ host @ rest) host ip 1 = seps @ ip @ rest"
proof (cases "host = ip")
  case True
  then show ?thesis by (simp add: Replace_def)
next
  case False
  have idx: "Index (seps @ host @ rest) host = Some (length seps)"
    by (rule Index_first [OF assms])
  have cnt: "Count (seps @ host @ rest) host = Suc (Count rest host)"
    using idx assms(2) by (subst Count.simps) simp
  have "replace_loop 0 1 (seps @ host @ rest) host ip = seps @ ip @ rest"
    using idx assms(2) by (subst replace_loop.simps, subst replace_loop.simps) simp
  with False cnt show ?thesis
    by (simp add: Replace_def Let_def del: Count.simps replace_loop.simps)
qed

section \<open>The steps of \<open>SMBMount\<close>\<close>

lemma ExistsPath_eq:
  "ExistsPath mounter path s =
     (case FsClient_PathExists mounter (normalizeWindowsPath path) (node s) of
        (Inl err, w) \<Rightarrow>
          ((False, Some err),
           \<lparr>issued = issued s @ [PathExistsRequest (normalizeWindowsPath path)], node = w\<rparr>)
      | (Inr exists, w) \<Rightarrow>
          ((exists, None),
           \<lparr>issued = issued s @ [PathExistsRequest (normalizeWindowsPath path)], node = w\<rparr>))"
  by (simp add: ExistsPath_def rpc_def split: prod.splits sum.splits)

lemma MakeDir_eq:
  "MakeDir mounter path s =
     (case FsClient_Mkdir mounter (normalizeWindowsPath path) PLUGIN (node s) of
        (r, w) \<Rightarrow>
          (r, \<lparr>issued = issued s @ [MkdirRequest (normalizeWindowsPath path) PLUGIN],
               node = w\<rparr>))"
  by (simp add: MakeDir_def rpc_def)

lemma SMBMount_reaches_mapping:
  assumes "mountOptions \<noteq> []" and "sensitiveMountOptions \<noteq> []"
    and "ExistsPath mounter (filepath_Dir mounter target) s = ((parentExists, None), s1)"
    and "(if parentExists then (None, s1)
          else MakeDir mounter (filepath_Dir mounter target) s1) = (None, s2)"
    and "(let parts = FieldsFunc source Split in
          if length parts > 0 \<and> HasSuffix (parts ! 0) ''svc.cluster.local''
          then (case net_ResolveIPAddr mounter ''ip4'' (parts ! 0) of
                  Inl err \<Rightarrow> source
                | Inr ip \<Rightarrow> Replace source (parts ! 0) ip 1)
          else source) = source1"
    and "SMBClient_NewSmbGlobalMapping mounter (normalizeWindowsPath target)
           (to_backslash source1) (mountOptions ! 0) (sensitiveMountOptions ! 0) (node s2)
         = (r, w)"
  shows "SMBMount mounter source target fsType mountOptions sensitiveMountOptions s =
           (map_option (\<lambda>err. Errorf (''smb mapping failed with error: '' @ Error err)) r,
            \<lparr>issued = issued s2 @ [NewSmbGlobalMappingRequest (normalizeWindowsPath target)
                 (to_backslash source1) (mountOptions ! 0) (sensitiveMountOptions ! 0)],
             node = w\<rparr>)"
proof -
  from assms(4) have mk: "(if \<not> parentExists
          then MakeDir mounter (filepath_Dir mounter target) s1 else (None, s1)) = (None, s2)"
    by (simp split: if_splits)
  from assms(5) have src: "(if length (FieldsFunc source Split) > 0
             \<and> HasSuffix (FieldsFunc source Split ! 0) ''svc.cluster.local''
          then (case net_ResolveIPAddr mounter ''ip4'' (FieldsFunc source Split ! 0) of
                  Inl err \<Rightarrow> source
                | Inr ip \<Rightarrow> Replace source (FieldsFunc source Split ! 0) ip 1)
          else source) = source1"
    by (simp add: Let_def)
  from assms(1,2) have ne: "\<not> (length mountOptions = 0 \<or> length sensitiveMountOptions = 0)"
    by simp
  show ?thesis
    unfolding SMBMount_def Let_def
    by (simp only: ne if_False assms(3) mk src Replace_slash rpc_def assms(6) prod.case option.case)
       (cases r; simp)
qed

lemma SMBMount_exist_check_failed:
  assumes "mountOptions \<noteq> []" and "sensitiveMountOptions \<noteq> []"
    and "FsClient_PathExists mounter (normalizeWindowsPath (filepath_Dir mounter target))
           (node s) = (Inl err, w)"
  shows "SMBMount mounter source target fsType mountOptions sensitiveMountOptions s =
          (Some (Errorf (''parent dir: '' @ filepath_Dir mounter target
                         @ '' exist check failed with err: '' @ Error err)),
           \<lparr>issued = issued s @
              [PathExistsRequest (normalizeWindowsPath (filepath_Dir mounter target))],
            node = w\<rparr>)"
proof -
  from assms(1,2) have ne: "\<not> (length mountOptions = 0 \<or> length sensitiveMountOptions = 0)"
    by simp
  have ex: "ExistsPath mounter (filepath_Dir mounter target) s =
      ((False, Some err), \<lparr>issued = issued s @
              [PathExistsRequest (normalizeWindowsPath (filepath_Dir mounter target))],
            node = w\<rparr>)"
    by (simp add: ExistsPath_eq assms(3))
  show ?thesis
    unfolding SMBMount_def Let_def
    by (simp only: ne if_False ex prod.case option.case)
qed

lemma SMBMount_mkdir_failed:
  assumes "mountOptions \<noteq> []" and "sensitiveMountOptions \<noteq> []"
    and "FsClient_PathExists mounter (normalizeWindowsPath (filepath_Dir mounter target))
           (node s) = (Inr False, w)"
    and "FsClient_Mkdir mounter (normalizeWindowsPath (filepath_Dir mounter target))
            PLUGIN w = (Some err, w')"
  shows "SMBMount mounter source target fsType mountOptions sensitiveMountOptions s =
          (Some (Errorf (''create of parent dir: '' @ filepath_Dir mounter target
                         @ '' dailed with error: '' @ Error err)),
           \<lparr>issued = issued s @
              [PathExistsRequest (normalizeWindowsPath (filepath_Dir mounter target)),
               MkdirRequest (normalizeWindowsPath (filepath_Dir mounter target)) PLUGIN],
            node = w'\<rparr>)"
proof -
  from assms(1,2) have ne: "\<not> (length mountOptions = 0 \<or> length sensitiveMountOptions = 0)"
    by simp
  have ex: "ExistsPath mounter (filepath_Dir mounter target) s =
      ((False, None), \<lparr>issued = issued s @
              [PathExistsRequest (normalizeWindowsPath (filepath_Dir mounter target))],
            node = w\<rparr>)"
    by (simp add: ExistsPath_eq assms(3))
  have mk: "MakeDir mounter (filepath_Dir mounter target) \<lparr>issued = issued s @
              [PathExistsRequest (normalizeWindowsPath (filepath_Dir mounter target))],
            node = w\<rparr> =
      (Some err, \<lparr>issued = issued s @
              [PathExistsRequest (normalizeWindowsPath (filepath_Dir mounter target)),
               MkdirRequest (normalizeWindowsPath (filepath_Dir mounter target)) PLUGIN],
            node = w'\<rparr>)"
    by (simp add: MakeDir_eq assms(4))
  show ?thesis
    unfolding SMBMount_def Let_def
    by (simp only: ne if_False ex prod.case option.case not_False_eq_True if_True mk)
qed

lemma SMBMount_parent_present:
  assumes "mountOptions \<noteq> []" and "sensitiveMountOptions \<noteq> []"
    and "FsClient_PathExists mounter (normalizeWindowsPath (filepath_Dir mounter target))
           (node s) = (Inr True, w)"
  shows "\<exists>remote. requests_of s
           (SMBMount mounter source target fsType mountOptions sensitiveMountOptions s) =
          [PathExistsRequest (normalizeWindowsPath (filepath_Dir mounter target)),
           NewSmbGlobalMappingRequest (normalizeWindowsPath target) remote
             (mountOptions ! 0) (sensitiveMountOptions ! 0)]"
proof -
  let ?s1 = "\<lparr>issued = issued s @
              [PathExistsRequest (normalizeWindowsPath (filepath_Dir mounter target))],
            node = w\<rparr>"
  have ex: "ExistsPath mounter (filepath_Dir mounter target) s = ((True, None), ?s1)"
    by (simp add: ExistsPath_eq assms(3))
  have mk: "(if True then (None, ?s1)
          else MakeDir mounter (filepath_Dir mounter target) ?s1) = (None, ?s1)"
    by simp
  obtain source1 where src: "(let parts = FieldsFunc source Split in
          if length parts > 0 \<and> HasSuffix (parts ! 0) ''svc.cluster.local''
          then (case net_ResolveIPAddr mounter ''ip4'' (parts ! 0) of
                  Inl err \<Rightarrow> source
                | Inr ip \<Rightarrow> Replace source (parts ! 0) ip 1)
          else source) = source1"
    by simp
  obtain r w' where call: "SMBClient_NewSmbGlobalMapping mounter (normalizeWindowsPath target)
           (to_backslash source1) (mountOptions ! 0) (sensitiveMountOptions ! 0) (node ?s1)
         = (r, w')"
    by (rule prod.exhaust)
  show ?thesis
    unfolding SMBMount_reaches_mapping [OF assms(1,2) ex mk src call]
    by (simp add: requests_of_def)
qed

lemma SMBMount_parent_created:
  assumes "mountOptions \<noteq> []" and "sensitiveMountOptions \<noteq> []"
    and "FsClient_PathExists mounter (normalizeWindowsPath (filepath_Dir mounter target))
           (node s) = (Inr False, w)"
    and "FsClient_Mkdir mounter (normalizeWindowsPath (filepath_Dir mounter target))
            PLUGIN w = (None, w')"
  shows "\<exists>remote. requests_of s
           (SMBMount mounter source target fsType mountOptions sensitiveMountOptions s) =
          [PathExistsRequest (normalizeWindowsPath (filepath_Dir mounter target)),
           MkdirRequest (normalizeWindowsPath (filepath_Dir mounter target)) PLUGIN,
           NewSmbGlobalMappingRequest (normalizeWindowsPath target) remote
             (mountOptions ! 0) (sensitiveMountOptions ! 0)]"
proof -
  let ?s1 = "\<lparr>issued = issued s @
              [PathExistsRequest (normalizeWindowsPath (filepath_Dir mounter target))],
            node = w\<rparr>"
  let ?s2 = "\<lparr>issued = issued s @
              [PathExistsRequest (normalizeWindowsPath (filepath_Dir mounter target)),
               MkdirRequest (normalizeWindowsPath (filepath_Dir mounter target)) PLUGIN],
            node = w'\<rparr>"
  have ex: "ExistsPath mounter (filepath_Dir mounter target) s = ((False, None), ?s1)"
    by (simp add: ExistsPath_eq assms(3))
  have mk: "(if False then (None, ?s1)
          else MakeDir mounter (filepath_Dir mounter target) ?s1) = (None, ?s2)"
    by (simp add: MakeDir_eq assms(4))
  obtain source1 where src: "(let parts = FieldsFunc source Split in
          if length parts > 0 \<and> HasSuffix (parts ! 0) ''svc.cluster.local''
          then (case net_ResolveIPAddr mounter ''ip4'' (parts ! 0) of
                  Inl err \<Rightarrow> source
                | Inr ip \<Rightarrow> Replace source (parts ! 0) ip 1)
          else source) = source1"
    by simp
  obtain r w'' where call: "SMBClient_NewSmbGlobalMapping mounter (normalizeWindowsPath target)
           (to_backslash source1) (mountOptions ! 0) (sensitiveMountOptions ! 0) (node ?s2)
         = (r, w'')"
    by (rule prod.exhaust)
  show ?thesis
    unfolding SMBMount_reaches_mapping [OF assms(1,2) ex mk src call]
    by (simp add: requests_of_def)
qed

section \<open>Runs on the node in memory\<close>

lemma sim_parent: "normalizeWindowsPath (sim_Dir ''/mnt/smb'') = to_backslash ''c:/mnt''"
  by (simp add: normalizeWindowsPath_eq sim_Dir_def to_backslash_def HasPrefix_def backslash_def)

lemma sim_target: "normalizeWindowsPath ''/mnt/smb'' = to_backslash ''c:/mnt/smb''"
  by (simp add: normalizeWindowsPath_eq to_backslash_def HasPrefix_def backslash_def)

lemma sim_exists:
  "ExistsPath sim_mounter (filepath_Dir sim_mounter ''/mnt/smb'') sim_start =
     ((True, None),
      sim_start\<lparr>issued := [PathExistsRequest (to_backslash ''c:/mnt'')]\<rparr>)"
  by (simp add: ExistsPath_eq sim_mounter_def sim_parent sim_start_def)
     (simp add: to_backslash_def)

lemma sim_parent_step:
  "(if True then (None, sim_start\<lparr>issued := [PathExistsRequest (to_backslash ''c:/mnt'')]\<rparr>)
    else MakeDir sim_mounter (filepath_Dir sim_mounter ''/mnt/smb'')
           (sim_start\<lparr>issued := [PathExistsRequest (to_backslash ''c:/mnt'')]\<rparr>)) =
   (None, sim_start\<lparr>issued := [PathExistsRequest (to_backslash ''c:/mnt'')]\<rparr>)"
  by simp

lemma sim_mapping:
  "SMBClient_NewSmbGlobalMapping sim_mounter (normalizeWindowsPath ''/mnt/smb'')
     remote ([''user''] ! 0) ([''pass''] ! 0)
     (node (sim_start\<lparr>issued := [PathExistsRequest (to_backslash ''c:/mnt'')]\<rparr>)) =
   (None, \<lparr>dirs = [to_backslash ''c:/mnt/smb'', to_backslash ''c:/mnt''],
           mount_points = [to_backslash ''c:/mnt/smb''],
           mappings = [(remote, to_backslash ''c:/mnt/smb'')],
           offline = False, read_only = False\<rparr>)"
  by (simp add: sim_mounter_def sim_target sim_start_def) (simp add: to_backslash_def)

lemma sim_suffix: "HasSuffix ''fs.svc.cluster.local'' ''svc.cluster.local''"
  by (simp add: HasSuffix_def)

lemma sim_resolved:
  "net_ResolveIPAddr sim_mounter ''ip4'' ''fs.svc.cluster.local'' = Inr ''10.0.0.5''"
  by (simp add: sim_mounter_def sim_ResolveIPAddr_def)

lemma fields_db: "FieldsFunc ''//db.svc.cluster.local/share'' Split = [''db.svc.cluster.local'', ''share'']"
  by (simp add: FieldsFunc_def Split_def)

lemma fields_fs:
  "FieldsFunc ''//fs.svc.cluster.local/share'' Split = [''fs.svc.cluster.local'', ''share'']"
  by (simp add: FieldsFunc_def Split_def)

lemma sim_Dir_mnt: "sim_Dir ''/mnt/smb'' = to_backslash ''/mnt''"
  by (simp add: sim_Dir_def to_backslash_def backslash_def)

lemma sim_Dir_data: "sim_Dir ''/data/smb'' = to_backslash ''/data''"
  by (simp add: sim_Dir_def to_backslash_def backslash_def)

lemma sim_data_parent: "normalizeWindowsPath (sim_Dir ''/data/smb'') = to_backslash ''c:/data''"
  by (simp add: normalizeWindowsPath_eq sim_Dir_def to_backslash_def HasPrefix_def backslash_def)

lemma Replace_every_example:
  "Replace ''//fs.svc.cluster.local/fs.svc.cluster.local'' ''fs.svc.cluster.local'' ''10.0.0.5'' (- 1)
     = ''//10.0.0.5/10.0.0.5''"
  by code_simp

section \<open>The claims\<close>

text \<open>
  Claim C1, as the code has it. When the first field of the source ends with the suffix
  of the cluster-internal domain and the resolver answers with an address, the remote path
  of the mapping request is the source with that first field, the host, replaced by the
  address, and with its slashes turned into backslashes. The source is taken apart as
  leading separators, host and rest; the rest is sent as it is, so a later instance of the
  host name in it stays. The line in the source is
  \<open>strings.Replace(source, domainName, ip.String(), 1)\<close>.
\<close>

theorem SMBMount_resolves_first_occurrence:
  assumes "mountOptions \<noteq> []" and "sensitiveMountOptions \<noteq> []"
    and "ExistsPath mounter (filepath_Dir mounter target) s = ((parentExists, None), s1)"
    and "(if parentExists then (None, s1)
          else MakeDir mounter (filepath_Dir mounter target) s1) = (None, s2)"
    and "source = seps @ host @ rest"
    and "\<forall>c \<in> set seps. Split c" and "\<forall>c \<in> set host. \<not> Split c"
    and "rest = [] \<or> Split (hd rest)"
    and "HasSuffix host ''svc.cluster.local''"
    and "net_ResolveIPAddr mounter ''ip4'' host = Inr ip"
    and "SMBClient_NewSmbGlobalMapping mounter (normalizeWindowsPath target)
           (to_backslash (seps @ ip @ rest)) (mountOptions ! 0) (sensitiveMountOptions ! 0)
           (node s2) = (r, w)"
  shows "SMBMount mounter source target fsType mountOptions sensitiveMountOptions s =
           (map_option (\<lambda>err. Errorf (''smb mapping failed with error: '' @ Error err)) r,
            \<lparr>issued = issued s2 @ [NewSmbGlobalMappingRequest (normalizeWindowsPath target)
                 (to_backslash (seps @ ip @ rest))
                 (mountOptions ! 0) (sensitiveMountOptions ! 0)],
             node = w\<rparr>)"
proof (rule SMBMount_reaches_mapping [OF assms(1-4) _ assms(11)])
  from assms(9) have ne: "host \<noteq> []" by (auto simp: HasSuffix_def)
  from FieldsFunc_first [OF assms(6) ne assms(7,8)] assms(5)
  obtain ps where parts: "FieldsFunc source Split = host # ps" by auto
  have "Replace source host ip 1 = seps @ ip @ rest"
    unfolding assms(5) by (rule Replace_first [OF assms(6) ne assms(7)])
  then show "(let parts = FieldsFunc source Split in
          if length parts > 0 \<and> HasSuffix (parts ! 0) ''svc.cluster.local''
          then (case net_ResolveIPAddr mounter ''ip4'' (parts ! 0) of
                  Inl err \<Rightarrow> source
                | Inr ip \<Rightarrow> Replace source (parts ! 0) ip 1)
          else source) = seps @ ip @ rest"
    using parts assms(9,10) by (simp add: Let_def)
qed

text \<open>
  The theorem on the node in memory: the host of \<open>//fs.svc.cluster.local/share\<close>
  resolves to \<open>10.0.0.5\<close>.
\<close>

theorem SMBMount_resolves_first_occurrence_witness:
  "SMBMount sim_mounter ''//fs.svc.cluster.local/share'' ''/mnt/smb'' [] [''user''] [''pass'']
     sim_start =
     (None,
      \<lparr>issued = [PathExistsRequest (to_backslash ''c:/mnt''),
                 NewSmbGlobalMappingRequest (to_backslash ''c:/mnt/smb'')
                   (to_backslash ''//10.0.0.5/share'') ''user'' ''pass''],
       node = \<lparr>dirs = [to_backslash ''c:/mnt/smb'', to_backslash ''c:/mnt''],
               mount_points = [to_backslash ''c:/mnt/smb''],
               mappings = [(to_backslash ''//10.0.0.5/share'', to_backslash ''c:/mnt/smb'')],
               offline = False, read_only = False\<rparr>\<rparr>)"
proof -
  have opts: "[''user''] \<noteq> []" "[''pass''] \<noteq> []" by simp_all
  have src: "''//fs.svc.cluster.local/share'' = ''//'' @ ''fs.svc.cluster.local'' @ ''/share''"
    by simp
  have seps: "\<forall>c \<in> set ''//''. Split c" by (simp add: Split_def)
  have host: "\<forall>c \<in> set ''fs.svc.cluster.local''. \<not> Split c" by (simp add: Split_def)
  have rest: "''/share'' = [] \<or> Split (hd ''/share'')" by (simp add: Split_def)
  show ?thesis
    using SMBMount_resolves_first_occurrence
      [OF opts sim_exists sim_parent_step src seps host rest sim_suffix sim_resolved
          sim_mapping, of "[]"]
    by (simp add: sim_target sim_start_def)
qed

text \<open>
  Claim C1 as it is stated, that every instance of the host name is replaced, fails when
  the name occurs twice: the second instance reaches the helper service unchanged, where
  replacing every instance would have sent the address twice.
\<close>

theorem SMBMount_every_occurrence_counterexample:
  "requests_of sim_start
     (SMBMount sim_mounter ''//fs.svc.cluster.local/fs.svc.cluster.local'' ''/mnt/smb'' []
        [''user''] [''pass''] sim_start) =
     [PathExistsRequest (to_backslash ''c:/mnt''),
      NewSmbGlobalMappingRequest (to_backslash ''c:/mnt/smb'')
        (to_backslash ''//10.0.0.5/fs.svc.cluster.local'') ''user'' ''pass'']
   \<and> to_backslash ''//10.0.0.5/fs.svc.cluster.local'' \<noteq>
       to_backslash (Replace ''//fs.svc.cluster.local/fs.svc.cluster.local''
                       ''fs.svc.cluster.local'' ''10.0.0.5'' (- 1))"
proof
  have opts: "[''user''] \<noteq> []" "[''pass''] \<noteq> []" by simp_all
  have parts: "FieldsFunc ''//fs.svc.cluster.local/fs.svc.cluster.local'' Split =
      [''fs.svc.cluster.local'', ''fs.svc.cluster.local'']"
    by (simp add: FieldsFunc_def Split_def)
  have "Replace (''//'' @ ''fs.svc.cluster.local'' @ ''/fs.svc.cluster.local'')
          ''fs.svc.cluster.local'' ''10.0.0.5'' 1 = ''//'' @ ''10.0.0.5'' @ ''/fs.svc.cluster.local''"
    by (rule Replace_first [where f = Split]) (simp_all add: Split_def)
  then have src: "(let parts = FieldsFunc ''//fs.svc.cluster.local/fs.svc.cluster.local'' Split in
          if length parts > 0 \<and> HasSuffix (parts ! 0) ''svc.cluster.local''
          then (case net_ResolveIPAddr sim_mounter ''ip4'' (parts ! 0) of
                  Inl err \<Rightarrow> ''//fs.svc.cluster.local/fs.svc.cluster.local''
                | Inr ip \<Rightarrow> Replace ''//fs.svc.cluster.local/fs.svc.cluster.local'' (parts ! 0) ip 1)
          else ''//fs.svc.cluster.local/fs.svc.cluster.local'') =
        ''//10.0.0.5/fs.svc.cluster.local''"
    using sim_suffix sim_resolved by (simp add: parts)
  show "requests_of sim_start
     (SMBMount sim_mounter ''//fs.svc.cluster.local/fs.svc.cluster.local'' ''/mnt/smb'' []
        [''user''] [''pass''] sim_start) =
     [PathExistsRequest (to_backslash ''c:/mnt''),
      NewSmbGlobalMappingRequest (to_backslash ''c:/mnt/smb'')
        (to_backslash ''//10.0.0.5/fs.svc.cluster.local'') ''user'' ''pass'']"
    unfolding SMBMount_reaches_mapping [OF opts sim_exists sim_parent_step src sim_mapping]
    by (simp add: requests_of_def sim_target sim_start_def)
next
  show "to_backslash ''//10.0.0.5/fs.svc.cluster.local'' \<noteq>
       to_backslash (Replace ''//fs.svc.cluster.local/fs.svc.cluster.local''
                       ''fs.svc.cluster.local'' ''10.0.0.5'' (- 1))"
    by (simp add: Replace_every_example to_backslash_def)
qed

text \<open>
  Claim C2. \<open>normalizeWindowsPath\<close> turns every slash of the path into a backslash
  and puts \<open>c:\<close> in front when the result begins with a backslash; it is a total function
  with no error result; and applying it twice is the same as applying it once.
\<close>

theorem normalizeWindowsPath_total_idempotent:
  "normalizeWindowsPath p =
     (if HasPrefix (to_backslash p) [backslash] then ''c:'' @ to_backslash p
      else to_backslash p)
   \<and> normalizeWindowsPath (normalizeWindowsPath p) = normalizeWindowsPath p"
proof
  show "normalizeWindowsPath p =
     (if HasPrefix (to_backslash p) [backslash] then ''c:'' @ to_backslash p
      else to_backslash p)"
    by (rule normalizeWindowsPath_eq)
next
  have "to_backslash (''c:'' @ to_backslash p) = ''c:'' @ to_backslash p"
    using to_backslash_idem [of p] by (simp add: to_backslash_def)
  moreover have "\<not> HasPrefix (''c:'' @ to_backslash p) [backslash]"
    by (simp add: HasPrefix_def backslash_def)
  ultimately show "normalizeWindowsPath (normalizeWindowsPath p) = normalizeWindowsPath p"
    by (simp add: normalizeWindowsPath_eq to_backslash_idem)
qed

text \<open>
  Claim C3. With an empty \<open>mountOptions\<close> or an empty \<open>sensitiveMountOptions\<close>,
  \<open>SMBMount\<close> returns the error the specification calls InvalidArgument, and the state is
  the one it started from: no request of any kind has been issued.
\<close>

theorem SMBMount_empty_options:
  assumes "mountOptions = [] \<or> sensitiveMountOptions = []"
  shows "SMBMount mounter source target fsType mountOptions sensitiveMountOptions s =
           (Some (Errorf (''empty mountOptions(len: '' @ fmt_d (length mountOptions)
                          @ '') or sensitiveMountOptions(len: ''
                          @ fmt_d (length sensitiveMountOptions) @ '') is not allowed'')), s)
         \<and> requests_of s
             (SMBMount mounter source target fsType mountOptions sensitiveMountOptions s) = []"
  using assms by (auto simp: SMBMount_def requests_of_def)

theorem SMBMount_empty_options_witness:
  "SMBMount sim_mounter ''//smb-server/share'' ''/mnt/smb'' ''cifs'' [] [''pass''] sim_start =
     (Some (Errorf ''empty mountOptions(len: 0) or sensitiveMountOptions(len: 1) is not allowed''),
      sim_start)
   \<and> requests_of sim_start
        (SMBMount sim_mounter ''//smb-server/share'' ''/mnt/smb'' ''cifs'' [] [''pass''] sim_start)
      = []"
  using SMBMount_empty_options [of "[]" "[''pass'']" sim_mounter "''//smb-server/share''"
      "''/mnt/smb''" "''cifs''" sim_start]
  by (simp add: requests_of_def)

text \<open>
  Claim C4. When the first field of the source ends with the suffix of the
  cluster-internal domain and the resolver fails, \<open>SMBMount\<close> goes on once the step for
  the parent directory has passed: it issues the mapping request with the source it was given
  (slashes turned into backslashes, as on every path to that request), and its error is
  exactly the one of that request, \<open>nil\<close> when the request succeeds. The error of the
  resolver is not returned.
\<close>

theorem SMBMount_resolution_failure_not_fatal:
  assumes "mountOptions \<noteq> []" and "sensitiveMountOptions \<noteq> []"
    and "ExistsPath mounter (filepath_Dir mounter target) s = ((parentExists, None), s1)"
    and "(if parentExists then (None, s1)
          else MakeDir mounter (filepath_Dir mounter target) s1) = (None, s2)"
    and "FieldsFunc source Split = host # others"
    and "HasSuffix host ''svc.cluster.local''"
    and "net_ResolveIPAddr mounter ''ip4'' host = Inl e"
    and "SMBClient_NewSmbGlobalMapping mounter (normalizeWindowsPath target)
           (to_backslash source) (mountOptions ! 0) (sensitiveMountOptions ! 0) (node s2)
         = (r, w)"
  shows "SMBMount mounter source target fsType mountOptions sensitiveMountOptions s =
           (map_option (\<lambda>err. Errorf (''smb mapping failed with error: '' @ Error err)) r,
            \<lparr>issued = issued s2 @ [NewSmbGlobalMappingRequest (normalizeWindowsPath target)
                 (to_backslash source) (mountOptions ! 0) (sensitiveMountOptions ! 0)],
             node = w\<rparr>)"
proof (rule SMBMount_reaches_mapping [OF assms(1-4) _ assms(8)])
  show "(let parts = FieldsFunc source Split in
          if length parts > 0 \<and> HasSuffix (parts ! 0) ''svc.cluster.local''
          then (case net_ResolveIPAddr mounter ''ip4'' (parts ! 0) of
                  Inl err \<Rightarrow> source
                | Inr ip \<Rightarrow> Replace source (parts ! 0) ip 1)
          else source) = source"
    using assms(5-7) by (simp add: Let_def)
qed

text \<open>
  The theorem on the node in memory, where \<open>db.svc.cluster.local\<close> does not resolve.
\<close>

theorem SMBMount_resolution_failure_not_fatal_witness:
  "SMBMount sim_mounter ''//db.svc.cluster.local/share'' ''/mnt/smb'' [] [''user''] [''pass'']
     sim_start =
     (None,
      \<lparr>issued = [PathExistsRequest (to_backslash ''c:/mnt''),
                 NewSmbGlobalMappingRequest (to_backslash ''c:/mnt/smb'')
                   (to_backslash ''//db.svc.cluster.local/share'') ''user'' ''pass''],
       node = \<lparr>dirs = [to_backslash ''c:/mnt/smb'', to_backslash ''c:/mnt''],
               mount_points = [to_backslash ''c:/mnt/smb''],
               mappings = [(to_backslash ''//db.svc.cluster.local/share'',
                            to_backslash ''c:/mnt/smb'')],
               offline = False, read_only = False\<rparr>\<rparr>)"
proof -
  let ?s1 = "sim_start\<lparr>issued := [PathExistsRequest (to_backslash ''c:/mnt'')]\<rparr>"
  have opts: "[''user''] \<noteq> []" "[''pass''] \<noteq> []" by simp_all
  have mk: "(if True then (None, ?s1)
          else MakeDir sim_mounter (filepath_Dir sim_mounter ''/mnt/smb'') ?s1) = (None, ?s1)"
    by simp
  have suffix: "HasSuffix ''db.svc.cluster.local'' ''svc.cluster.local''"
    by (simp add: HasSuffix_def)
  have unresolved: "net_ResolveIPAddr sim_mounter ''ip4'' ''db.svc.cluster.local'' =
      Inl (ClientError ''no such host'')"
    by (simp add: sim_mounter_def sim_ResolveIPAddr_def)
  have call: "SMBClient_NewSmbGlobalMapping sim_mounter (normalizeWindowsPath ''/mnt/smb'')
           (to_backslash ''//db.svc.cluster.local/share'') ([''user''] ! 0) ([''pass''] ! 0)
           (node ?s1) =
         (None, \<lparr>dirs = [to_backslash ''c:/mnt/smb'', to_backslash ''c:/mnt''],
               mount_points = [to_backslash ''c:/mnt/smb''],
               mappings = [(to_backslash ''//db.svc.cluster.local/share'',
                            to_backslash ''c:/mnt/smb'')],
               offline = False, read_only = False\<rparr>)"
    by (simp add: sim_mounter_def sim_target sim_start_def) (simp add: to_backslash_def)
  show ?thesis
    using SMBMount_resolution_failure_not_fatal
      [OF opts sim_exists mk fields_db suffix unresolved call, of "[]"]
    by (simp add: sim_target sim_start_def)
qed

text \<open>
  Claim C5. \<open>IsLikelyNotMountPoint\<close> answers \<open>(true, os.ErrNotExist)\<close> when the helper
  service reports that the path does not exist, \<open>(true, nil)\<close> when the path exists and
  is reported not to be a mount point, and \<open>(false, nil)\<close> when it exists and is
  reported to be a mount point.
\<close>

theorem IsLikelyNotMountPoint_answers:
  "(FsClient_PathExists mounter (normalizeWindowsPath path) (node s) = (Inr False, w1)
      \<longrightarrow> fst (IsLikelyNotMountPoint mounter path s) = (True, Some ErrNotExist))
   \<and> (FsClient_PathExists mounter (normalizeWindowsPath path) (node s) = (Inr True, w2)
        \<and> FsClient_IsMountPoint mounter (normalizeWindowsPath path) w2 = (Inr False, w3)
      \<longrightarrow> fst (IsLikelyNotMountPoint mounter path s) = (True, None))
   \<and> (FsClient_PathExists mounter (normalizeWindowsPath path) (node s) = (Inr True, w4)
        \<and> FsClient_IsMountPoint mounter (normalizeWindowsPath path) w4 = (Inr True, w5)
      \<longrightarrow> fst (IsLikelyNotMountPoint mounter path s) = (False, None))"
  by (simp add: IsLikelyNotMountPoint_def ExistsPath_def rpc_def)

theorem IsLikelyNotMountPoint_answers_witness:
  "fst (IsLikelyNotMountPoint sim_mounter ''/mnt/smb'' sim_start) = (True, Some ErrNotExist)
   \<and> fst (IsLikelyNotMountPoint sim_mounter ''/mnt'' sim_start) = (True, None)
   \<and> fst (IsLikelyNotMountPoint sim_mounter ''/mnt''
        (sim_start\<lparr>node := (node sim_start)\<lparr>mount_points := [to_backslash ''c:/mnt'']\<rparr>\<rparr>))
      = (False, None)"
proof -
  let ?mounted = "sim_start\<lparr>node := (node sim_start)\<lparr>mount_points := [to_backslash ''c:/mnt'']\<rparr>\<rparr>"
  have mnt: "normalizeWindowsPath ''/mnt'' = to_backslash ''c:/mnt''"
    by (simp add: normalizeWindowsPath_eq to_backslash_def HasPrefix_def backslash_def)
  have a: "FsClient_PathExists sim_mounter (normalizeWindowsPath ''/mnt/smb'') (node sim_start)
      = (Inr False, node sim_start)"
    by (simp add: sim_mounter_def sim_target sim_start_def) (simp add: to_backslash_def)
  have b: "FsClient_PathExists sim_mounter (normalizeWindowsPath ''/mnt'') (node sim_start)
      = (Inr True, node sim_start)
    \<and> FsClient_IsMountPoint sim_mounter (normalizeWindowsPath ''/mnt'') (node sim_start)
      = (Inr False, node sim_start)"
    by (simp add: sim_mounter_def mnt sim_start_def to_backslash_def)
  have c: "FsClient_PathExists sim_mounter (normalizeWindowsPath ''/mnt'') (node ?mounted)
      = (Inr True, node ?mounted)
    \<and> FsClient_IsMountPoint sim_mounter (normalizeWindowsPath ''/mnt'') (node ?mounted)
      = (Inr True, node ?mounted)"
    by (simp add: sim_mounter_def mnt sim_start_def to_backslash_def)
  from a IsLikelyNotMountPoint_answers
         [where mounter = sim_mounter and path = "''/mnt/smb''" and s = sim_start
            and ?w1.0 = "node sim_start"]
  have "fst (IsLikelyNotMountPoint sim_mounter ''/mnt/smb'' sim_start) = (True, Some ErrNotExist)"
    by blast
  moreover from b IsLikelyNotMountPoint_answers
         [where mounter = sim_mounter and path = "''/mnt''" and s = sim_start
            and ?w2.0 = "node sim_start" and ?w3.0 = "node sim_start"]
  have "fst (IsLikelyNotMountPoint sim_mounter ''/mnt'' sim_start) = (True, None)"
    by blast
  moreover from c IsLikelyNotMountPoint_answers
         [where mounter = sim_mounter and path = "''/mnt''" and s = ?mounted
            and ?w4.0 = "node ?mounted" and ?w5.0 = "node ?mounted"]
  have "fst (IsLikelyNotMountPoint sim_mounter ''/mnt'' ?mounted) = (False, None)"
    by blast
  ultimately show ?thesis by blast
qed

text \<open>
  Claim C6. Each of the thirteen unsupported operations returns, on every input, an error
  that is not \<open>nil\<close> and whose message names the operation as not implemented.
\<close>

theorem unsupported_operations_not_implemented:
  "snd (List mounter) = Some (Errorf ''List not implemented for CSIProxyMounter'')
   \<and> snd (PathIsDevice mounter pathname) =
       Some (Errorf ''PathIsDevice not implemented for CSIProxyMounter'')
   \<and> snd (DeviceOpened mounter pathname) =
       Some (Errorf ''DeviceOpened not implemented for CSIProxyMounter'')
   \<and> snd (GetDeviceNameFromMount mounter mountPath pluginMountDir) =
       Some (Errorf ''GetDeviceNameFromMount not implemented for CSIProxyMounter'')
   \<and> MakeRShared mounter path =
       Some (Errorf ''MakeRShared not implemented for CSIProxyMounter'')
   \<and> MakeFile mounter pathname =
       Some (Errorf ''MakeFile not implemented for CSIProxyMounter'')
   \<and> snd (EvalHostSymlinks mounter pathname) =
       Some (Errorf ''EvalHostSymlinks not implemented for CSIProxyMounter'')
   \<and> snd (GetMountRefs mounter pathname) =
       Some (Errorf ''GetMountRefs not implemented for CSIProxyMounter'')
   \<and> snd (GetFSGroup mounter pathname) =
       Some (Errorf ''GetFSGroup not implemented for CSIProxyMounter'')
   \<and> snd (GetSELinuxSupport mounter pathname) =
       Some (Errorf ''GetSELinuxSupport not implemented for CSIProxyMounter'')
   \<and> snd (GetMode mounter pathname) =
       Some (Errorf ''GetMode not implemented for CSIProxyMounter'')
   \<and> MountSensitive mounter source target fstype options sensitiveOptions =
       Some (Errorf ''MountSensitive not implemented for CSIProxyMounter'')
   \<and> MountSensitiveWithoutSystemd mounter source target fstype options sensitiveOptions =
       Some (Errorf ''MountSensitiveWithoutSystemd not implemented for CSIProxyMounter'')"
  by (simp add: List_def PathIsDevice_def DeviceOpened_def GetDeviceNameFromMount_def
      MakeRShared_def MakeFile_def EvalHostSymlinks_def GetMountRefs_def GetFSGroup_def
      GetSELinuxSupport_def GetMode_def MountSensitive_def MountSensitiveWithoutSystemd_def)

text \<open>
  Claim C7. \<open>SMBUnmount\<close> issues exactly one request, the removal of the normalized
  target with the pod context and \<open>Force\<close> set; its result and the state of the node are
  those of that one call of the filesystem client. The client of the share mappings is
  not called: whatever it is, the outcome is the same.
\<close>

theorem SMBUnmount_only_removes_directory:
  "SMBUnmount mounter target s =
     (fst (FsClient_Rmdir mounter (normalizeWindowsPath target) POD True (node s)),
      \<lparr>issued = issued s @ [RmdirRequest (normalizeWindowsPath target) POD True],
       node = snd (FsClient_Rmdir mounter (normalizeWindowsPath target) POD True (node s))\<rparr>)
   \<and> requests_of s (SMBUnmount mounter target s) =
       [RmdirRequest (normalizeWindowsPath target) POD True]
   \<and> SMBUnmount (mounter\<lparr>SMBClient_NewSmbGlobalMapping := smb\<rparr>) target s =
       SMBUnmount mounter target s"
  by (simp add: SMBUnmount_def Rmdir_def rpc_def requests_of_def split: prod.splits)

text \<open>
  Claim C8. With both option lists non-empty, the first request of \<open>SMBMount\<close> asks
  whether \<open>filepath.Dir(target)\<close> exists. If that check fails, the operation fails with
  the error the specification calls PrecheckFailed, whose message ends with the message of
  the underlying error, and nothing else has been requested. If the parent does not exist,
  the second request creates it with the plugin context, and an error of that request is
  returned as the error the specification calls PrerequisiteCreationFailed. If the parent
  exists, no request to create a directory is issued.
\<close>

theorem SMBMount_parent_directory:
  assumes "mountOptions \<noteq> []" and "sensitiveMountOptions \<noteq> []"
  shows
    "take 1 (requests_of s
         (SMBMount mounter source target fsType mountOptions sensitiveMountOptions s)) =
       [PathExistsRequest (normalizeWindowsPath (filepath_Dir mounter target))]
     \<and> (FsClient_PathExists mounter (normalizeWindowsPath (filepath_Dir mounter target))
          (node s) = (Inl e1, w1) \<longrightarrow>
        SMBMount mounter source target fsType mountOptions sensitiveMountOptions s =
          (Some (Errorf (''parent dir: '' @ filepath_Dir mounter target
                         @ '' exist check failed with err: '' @ Error e1)),
           \<lparr>issued = issued s @
              [PathExistsRequest (normalizeWindowsPath (filepath_Dir mounter target))],
            node = w1\<rparr>))
     \<and> (FsClient_PathExists mounter (normalizeWindowsPath (filepath_Dir mounter target))
          (node s) = (Inr False, w2) \<longrightarrow>
        take 2 (requests_of s
          (SMBMount mounter source target fsType mountOptions sensitiveMountOptions s)) =
          [PathExistsRequest (normalizeWindowsPath (filepath_Dir mounter target)),
           MkdirRequest (normalizeWindowsPath (filepath_Dir mounter target)) PLUGIN])
     \<and> (FsClient_PathExists mounter (normalizeWindowsPath (filepath_Dir mounter target))
          (node s) = (Inr False, w3)
        \<and> FsClient_Mkdir mounter (normalizeWindowsPath (filepath_Dir mounter target))
            PLUGIN w3 = (Some e3, w3') \<longrightarrow>
        SMBMount mounter source target fsType mountOptions sensitiveMountOptions s =
          (Some (Errorf (''create of parent dir: '' @ filepath_Dir mounter target
                         @ '' dailed with error: '' @ Error e3)),
           \<lparr>issued = issued s @
              [PathExistsRequest (normalizeWindowsPath (filepath_Dir mounter target)),
               MkdirRequest (normalizeWindowsPath (filepath_Dir mounter target)) PLUGIN],
            node = w3'\<rparr>))
     \<and> (FsClient_PathExists mounter (normalizeWindowsPath (filepath_Dir mounter target))
          (node s) = (Inr True, w4) \<longrightarrow>
        (\<forall>p c. MkdirRequest p c \<notin> set (requests_of s
          (SMBMount mounter source target fsType mountOptions sensitiveMountOptions s))))"
proof -
  let ?run = "SMBMount mounter source target fsType mountOptions sensitiveMountOptions s"
  let ?parent = "normalizeWindowsPath (filepath_Dir mounter target)"
  note ne = assms
  have absent: "take 2 (requests_of s ?run) =
      [PathExistsRequest ?parent, MkdirRequest ?parent PLUGIN]"
    if pe: "FsClient_PathExists mounter ?parent (node s) = (Inr False, w)" for w
  proof -
    obtain r w' where mk: "FsClient_Mkdir mounter ?parent PLUGIN w = (r, w')"
      by (rule prod.exhaust)
    show ?thesis
    proof (cases r)
      case None
      with SMBMount_parent_created [OF ne pe, of w' source fsType] mk show ?thesis by auto
    next
      case (Some err)
      with SMBMount_mkdir_failed [OF ne pe, of err w' source fsType] mk show ?thesis
        by (simp add: requests_of_def)
    qed
  qed
  have first: "take 1 (requests_of s ?run) = [PathExistsRequest ?parent]"
  proof -
    obtain r w where pe: "FsClient_PathExists mounter ?parent (node s) = (r, w)"
      by (rule prod.exhaust)
    show ?thesis
    proof (cases r)
      case (Inl err)
      with SMBMount_exist_check_failed [OF ne, of mounter target s err w source fsType] pe
      show ?thesis by (simp add: requests_of_def)
    next
      case (Inr b)
      show ?thesis
      proof (cases b)
        case True
        with SMBMount_parent_present [OF ne, of mounter target s w source fsType] pe Inr
        show ?thesis by auto
      next
        case False
        with absent [of w] pe Inr have "take 1 (take 2 (requests_of s ?run)) =
            [PathExistsRequest ?parent]" by simp
        then show ?thesis by simp
      qed
    qed
  qed
  have present: "MkdirRequest p c \<notin> set (requests_of s ?run)"
    if "FsClient_PathExists mounter ?parent (node s) = (Inr True, w4)" for p c
    using SMBMount_parent_present [OF ne that, of source fsType] by auto
  show ?thesis
    using first absent [of w2] present
      SMBMount_exist_check_failed [OF ne, of mounter target s e1 w1 source fsType]
      SMBMount_mkdir_failed [OF ne, of mounter target s w3 e3 w3' source fsType]
    by blast
qed

theorem SMBMount_parent_directory_witness:
  "take 1 (requests_of sim_start
      (SMBMount sim_mounter ''//smb-server/share'' ''/mnt/smb'' [] [''user''] [''pass'']
         sim_start)) = [PathExistsRequest (to_backslash ''c:/mnt'')]
   \<and> SMBMount sim_mounter ''//smb-server/share'' ''/mnt/smb'' [] [''user''] [''pass'']
        (sim_start\<lparr>node := (node sim_start)\<lparr>offline := True\<rparr>\<rparr>) =
       (Some (Errorf (''parent dir: '' @ to_backslash ''/mnt''
                      @ '' exist check failed with err: connection lost'')),
        \<lparr>issued = [PathExistsRequest (to_backslash ''c:/mnt'')],
         node = (node sim_start)\<lparr>offline := True\<rparr>\<rparr>)
   \<and> take 2 (requests_of sim_start
        (SMBMount sim_mounter ''//smb-server/share'' ''/data/smb'' [] [''user''] [''pass'']
           sim_start)) =
       [PathExistsRequest (to_backslash ''c:/data''),
        MkdirRequest (to_backslash ''c:/data'') PLUGIN]
   \<and> SMBMount sim_mounter ''//smb-server/share'' ''/data/smb'' [] [''user''] [''pass'']
        (sim_start\<lparr>node := (node sim_start)\<lparr>read_only := True\<rparr>\<rparr>) =
       (Some (Errorf (''create of parent dir: '' @ to_backslash ''/data''
                      @ '' dailed with error: access denied'')),
        \<lparr>issued = [PathExistsRequest (to_backslash ''c:/data''),
                   MkdirRequest (to_backslash ''c:/data'') PLUGIN],
         node = (node sim_start)\<lparr>read_only := True\<rparr>\<rparr>)
   \<and> (\<forall>p c. MkdirRequest p c \<notin> set (requests_of sim_start
        (SMBMount sim_mounter ''//smb-server/share'' ''/mnt/smb'' [] [''user''] [''pass'']
           sim_start)))"
proof -
  let ?off = "sim_start\<lparr>node := (node sim_start)\<lparr>offline := True\<rparr>\<rparr>"
  let ?ro = "sim_start\<lparr>node := (node sim_start)\<lparr>read_only := True\<rparr>\<rparr>"
  have opts: "[''user''] \<noteq> []" "[''pass''] \<noteq> []" by simp_all
  have present: "FsClient_PathExists sim_mounter
      (normalizeWindowsPath (filepath_Dir sim_mounter ''/mnt/smb'')) (node sim_start) =
      (Inr True, node sim_start)"
    by (simp add: sim_mounter_def sim_parent sim_start_def to_backslash_def)
  have lost: "FsClient_PathExists sim_mounter
      (normalizeWindowsPath (filepath_Dir sim_mounter ''/mnt/smb'')) (node ?off) =
      (Inl (ClientError ''connection lost''), node ?off)"
    by (simp add: sim_mounter_def sim_start_def)
  have absent: "FsClient_PathExists sim_mounter
      (normalizeWindowsPath (filepath_Dir sim_mounter ''/data/smb'')) (node sim_start) =
      (Inr False, node sim_start)"
    by (simp add: sim_mounter_def sim_data_parent sim_start_def to_backslash_def)
  have denied: "FsClient_PathExists sim_mounter
      (normalizeWindowsPath (filepath_Dir sim_mounter ''/data/smb'')) (node ?ro) =
      (Inr False, node ?ro)
    \<and> FsClient_Mkdir sim_mounter
      (normalizeWindowsPath (filepath_Dir sim_mounter ''/data/smb'')) PLUGIN (node ?ro) =
      (Some (ClientError ''access denied''), node ?ro)"
    by (simp add: sim_mounter_def sim_data_parent sim_start_def to_backslash_def)
  have dir: "filepath_Dir sim_mounter = sim_Dir" by (simp add: sim_mounter_def)
  from SMBMount_parent_directory [OF opts, of sim_start sim_mounter "''//smb-server/share''"
      "''/mnt/smb''" "[]"]
  have one: "take 1 (requests_of sim_start
      (SMBMount sim_mounter ''//smb-server/share'' ''/mnt/smb'' [] [''user''] [''pass'']
         sim_start)) = [PathExistsRequest (to_backslash ''c:/mnt'')]"
    by (simp add: dir sim_parent)
  from lost SMBMount_parent_directory [OF opts, of ?off sim_mounter "''//smb-server/share''"
      "''/mnt/smb''" "[]" "ClientError ''connection lost''" "node ?off"]
  have two: "SMBMount sim_mounter ''//smb-server/share'' ''/mnt/smb'' [] [''user''] [''pass'']
        ?off =
       (Some (Errorf (''parent dir: '' @ to_backslash ''/mnt''
                      @ '' exist check failed with err: connection lost'')),
        \<lparr>issued = [PathExistsRequest (to_backslash ''c:/mnt'')],
         node = (node sim_start)\<lparr>offline := True\<rparr>\<rparr>)"
    by (simp add: dir sim_parent [unfolded sim_Dir_mnt] sim_Dir_mnt sim_start_def)
  from absent SMBMount_parent_directory [where s = sim_start and mounter = sim_mounter
      and source = "''//smb-server/share''" and target = "''/data/smb''" and fsType = "[]"
      and ?w2.0 = "node sim_start", OF opts]
  have three: "take 2 (requests_of sim_start
        (SMBMount sim_mounter ''//smb-server/share'' ''/data/smb'' [] [''user''] [''pass'']
           sim_start)) =
       [PathExistsRequest (to_backslash ''c:/data''),
        MkdirRequest (to_backslash ''c:/data'') PLUGIN]"
    by (simp add: dir sim_data_parent)
  from denied SMBMount_parent_directory [where s = ?ro and mounter = sim_mounter
      and source = "''//smb-server/share''" and target = "''/data/smb''" and fsType = "[]"
      and ?w3.0 = "node ?ro" and ?w3'.0 = "node ?ro"
      and ?e3.0 = "ClientError ''access denied''", OF opts]
  have four: "SMBMount sim_mounter ''//smb-server/share'' ''/data/smb'' [] [''user''] [''pass'']
        ?ro =
       (Some (Errorf (''create of parent dir: '' @ to_backslash ''/data''
                      @ '' dailed with error: access denied'')),
        \<lparr>issued = [PathExistsRequest (to_backslash ''c:/data''),
                   MkdirRequest (to_backslash ''c:/data'') PLUGIN],
         node = (node sim_start)\<lparr>read_only := True\<rparr>\<rparr>)"
    by (simp add: dir sim_data_parent [unfolded sim_Dir_data] sim_Dir_data sim_start_def)
  from present SMBMount_parent_directory [where s = sim_start and mounter = sim_mounter
      and source = "''//smb-server/share''" and target = "''/mnt/smb''" and fsType = "[]"
      and ?w4.0 = "node sim_start", OF opts]
  have five: "\<forall>p c. MkdirRequest p c \<notin> set (requests_of sim_start
        (SMBMount sim_mounter ''//smb-server/share'' ''/mnt/smb'' [] [''user''] [''pass'']
           sim_start))"
    by blast
  from one two three four five show ?thesis by blast
qed

text \<open>
  Claim C9. \<open>SMBMount\<close> does not look at \<open>fsType\<close>: with any two values of it and
  all else equal, the result and the final state, with the requests issued, are the same.
\<close>

theorem SMBMount_ignores_fsType:
  "SMBMount mounter source target fsType mountOptions sensitiveMountOptions s =
   SMBMount mounter source target fsType' mountOptions sensitiveMountOptions s"
  by (simp add: SMBMount_def)

text \<open>
  Claim C10. \<open>Unmount\<close> and \<open>SMBUnmount\<close> are the same function of the target and
  the state: both are the one forced removal of the normalized target with the pod
  context.
\<close>

theorem Unmount_eq_SMBUnmount:
  "Unmount mounter target s = SMBUnmount mounter target s
   \<and> Unmount mounter target s =
       rpc (RmdirRequest (normalizeWindowsPath target) POD True)
           (FsClient_Rmdir mounter (normalizeWindowsPath target) POD True) s"
  by (simp add: Unmount_def SMBUnmount_def Rmdir_def)

end
